theory Spec2Isabelle
  imports Main
begin

section \<open>Data model\<close>

text \<open>
  The two source files are glue over an object-relational mapper. The database that
  \<^verbatim>\<open>DB.session\<close> talks to is made explicit: a table of user rows, a table of
  structures, and the clock that stamps new rows. Every service function and handler
  takes the database and returns the new one.

  Exceptions are values: \<^verbatim>\<open>abort(code)\<close> raises an HTTP exception carrying the
  status, \<^verbatim>\<open>@jwt_required\<close> raises when the request has no verified identity, and
  Python raises AttributeError and KeyError on a missing attribute or key.
\<close>

datatype error =
    HTTPException nat
  | NoAuthorizationError
  | AttributeError string
  | KeyError string
  | IntegrityError

type_synonym timestamp = nat

text \<open>
  A structure row. Its schema belongs to another module; the service only reads
  \<^verbatim>\<open>Structure.user_id\<close> (the owner) and \<^verbatim>\<open>Structure.favourites_of\<close> (the users
  who marked it). \<open>concrete\<close> stands for the row as its concrete subtype, which
  \<^verbatim>\<open>with_polymorphic(Structure, '*')\<close> loads in full.
\<close>

record 'a Structure =
  sid :: int
  user_id :: "int option"
  favourites_of :: "int list"
  concrete :: 'a

text \<open>A row of the user table.\<close>

record user_row =
  row_id :: int
  row_username :: string
  row_password_hash :: string
  row_created_on :: timestamp

text \<open>
  An instance of the mapped class \<^verbatim>\<open>User\<close> with the attributes the controller
  touches. \<open>uid\<close> is the attribute \<^verbatim>\<open>id\<close>; it and \<open>created_on\<close> are None on an
  instance that was constructed without them and not yet flushed. \<open>structures\<close>
  is the collection of the owned structures.
\<close>

record 'a user =
  uid :: "int option"
  username :: string
  password_hash :: string
  created_on :: "timestamp option"
  structures :: "'a Structure list"

record 'a db =
  user_table :: "user_row list"
  structure_table :: "'a Structure list"
  clock :: timestamp

section \<open>The session operations of the mapper\<close>

text \<open>
  Modelled from the spec: the mapper (\<^verbatim>\<open>DB.session\<close>, \<^verbatim>\<open>User.query\<close>) and the
  mapped class of \<^verbatim>\<open>app.model.user\<close> are defined outside the controller and the service. The
  definitions of this section follow sections 3 and 4.1 of the specification: lookup
  by primary key, generated identifiers, unique usernames, merge by identifier that
  keeps what the caller did not supply, and deletion that removes the user with its
  favourite associations.
\<close>

definition load_user :: "'a db \<Rightarrow> user_row \<Rightarrow> 'a user" where
  "load_user d r =
     \<lparr>uid = Some (row_id r),
      username = row_username r,
      password_hash = row_password_hash r,
      created_on = Some (row_created_on r),
      structures = filter (\<lambda>s. user_id s = Some (row_id r)) (structure_table d)\<rparr>"

definition query_get :: "int \<Rightarrow> 'a db \<Rightarrow> 'a user option" where
  "query_get i d = map_option (load_user d) (find (\<lambda>r. row_id r = i) (user_table d))"

definition fresh_id :: "'a db \<Rightarrow> int" where
  "fresh_id d = fold max (map row_id (user_table d)) 0 + 1"

definition username_taken :: "string \<Rightarrow> int option \<Rightarrow> 'a db \<Rightarrow> bool" where
  "username_taken n i d =
     (find (\<lambda>r. row_username r = n \<and> Some (row_id r) \<noteq> i) (user_table d) \<noteq> None)"

definition assign_structures :: "int \<Rightarrow> 'a Structure list \<Rightarrow> 'a Structure \<Rightarrow> 'a Structure" where
  "assign_structures i owned s =
     (if s \<in> set owned then s\<lparr>user_id := Some i\<rparr>
      else if user_id s = Some i then s\<lparr>user_id := None\<rparr>
      else s)"

definition row_of :: "int \<Rightarrow> timestamp \<Rightarrow> 'a user \<Rightarrow> user_row" where
  "row_of i t u =
     \<lparr>row_id = i, row_username = username u, row_password_hash = password_hash u,
      row_created_on = (case created_on u of None \<Rightarrow> t | Some c \<Rightarrow> c)\<rparr>"

definition insert_user :: "int \<Rightarrow> 'a user \<Rightarrow> 'a db \<Rightarrow> 'a db" where
  "insert_user i u d =
     d\<lparr>user_table := user_table d @ [row_of i (clock d) u],
       structure_table := map (assign_structures i (structures u)) (structure_table d)\<rparr>"

text \<open>\<^verbatim>\<open>DB.session.add(user); DB.session.commit()\<close>: the new instance and its row.\<close>

definition session_add :: "'a user \<Rightarrow> 'a db \<Rightarrow> error + 'a user \<times> 'a db" where
  "session_add u d =
     (let i = (case uid u of None \<Rightarrow> fresh_id d | Some j \<Rightarrow> j) in
      if username_taken (username u) None d then Inl IntegrityError
      else if query_get i d \<noteq> None then Inl IntegrityError
      else let d' = insert_user i u d in Inr (load_user d' (row_of i (clock d) u), d'))"

text \<open>\<^verbatim>\<open>DB.session.merge(user); DB.session.commit()\<close>.\<close>

definition session_merge :: "'a user \<Rightarrow> 'a db \<Rightarrow> error + 'a db" where
  "session_merge u d =
     (case uid u of
        None \<Rightarrow> map_sum id snd (session_add u d)
      | Some i \<Rightarrow>
          if username_taken (username u) (Some i) d then Inl IntegrityError
          else (case find (\<lambda>r. row_id r = i) (user_table d) of
                  None \<Rightarrow> Inr (insert_user i u d)
                | Some old \<Rightarrow>
                    Inr (d\<lparr>user_table :=
                              map (\<lambda>r. if row_id r = i then row_of i (row_created_on old) u else r)
                                (user_table d),
                            structure_table :=
                              map (assign_structures i (structures u)) (structure_table d)\<rparr>)))"

text \<open>\<^verbatim>\<open>DB.session.delete(user); DB.session.commit()\<close>.\<close>

definition session_delete :: "'a user \<Rightarrow> 'a db \<Rightarrow> 'a db" where
  "session_delete u d =
     (case uid u of
        None \<Rightarrow> d
      | Some i \<Rightarrow>
          d\<lparr>user_table := filter (\<lambda>r. row_id r \<noteq> i) (user_table d),
            structure_table :=
              map (\<lambda>s. s\<lparr>favourites_of := removeAll i (favourites_of s)\<rparr>) (structure_table d)\<rparr>)"

section \<open>The user service\<close>

definition get_all_user :: "'a db \<Rightarrow> 'a user list" where
  "get_all_user d = map (load_user d) (user_table d)"

definition add_user :: "'a user \<Rightarrow> 'a db \<Rightarrow> error + 'a user \<times> 'a db" where
  "add_user u d = session_add u d"

definition get_user :: "int \<Rightarrow> 'a db \<Rightarrow> 'a user option" where
  "get_user i d = query_get i d"

definition update_user :: "'a user \<Rightarrow> 'a db \<Rightarrow> error + 'a db" where
  "update_user u d = session_merge u d"

definition delete_user :: "int \<Rightarrow> 'a db \<Rightarrow> 'a db" where
  "delete_user i d =
     (case get_user i d of
        None \<Rightarrow> d
      | Some u \<Rightarrow> session_delete u d)"

definition get_all_structure_by_user :: "int \<Rightarrow> 'a db \<Rightarrow> 'a Structure list" where
  "get_all_structure_by_user i d = filter (\<lambda>s. user_id s = Some i) (structure_table d)"

definition get_favourites_by_user :: "int \<Rightarrow> 'a db \<Rightarrow> 'a Structure list" where
  "get_favourites_by_user i d = filter (\<lambda>s. i \<in> set (favourites_of s)) (structure_table d)"

text \<open>
  The module \<^verbatim>\<open>user_service\<close> as a namespace. The controller reaches a service
  function through an attribute of the module, \<^verbatim>\<open>user_service.name(...)\<close>, which
  Python resolves by name when the call runs. These are the two functions of the module
  that map a user identifier to a query over structures, under the names the module
  gives them; any other name is not such a function.
\<close>

definition user_service_attr :: "string \<Rightarrow> (int \<Rightarrow> 'a db \<Rightarrow> 'a Structure list) option" where
  "user_service_attr =
     map_of [(''get_all_structure_by_user'', get_all_structure_by_user),
             (''get_favourites_by_user'', get_favourites_by_user)]"

text \<open>
  Modelled from the spec: the setter of the attribute \<^verbatim>\<open>password\<close> of the mapped
  class (\<^verbatim>\<open>app.model.user\<close>, outside the controller and the service). Section 4.1: it persists a hash of
  the password, never the raw value. The hash function is a parameter.
\<close>

definition set_password :: "(string \<Rightarrow> string) \<Rightarrow> string \<Rightarrow> 'a user \<Rightarrow> 'a user" where
  "set_password generate_password_hash p u = u\<lparr>password_hash := generate_password_hash p\<rparr>"

text \<open>
  The controller also calls two service functions of two arguments,
  \<^verbatim>\<open>user_service.add_favorite_to_user(user_id, structure_id)\<close> and
  \<^verbatim>\<open>user_service.delete_favorite(user_id, favorite_id)\<close>. The module defines no
  function of two arguments, under any name, so its namespace of such functions is empty
  and a call through it raises AttributeError before anything is changed.
\<close>

definition user_service_attr2 ::
  "string \<Rightarrow> (int \<Rightarrow> int \<Rightarrow> 'a db \<Rightarrow> (error + unit) \<times> 'a db) option" where
  "user_service_attr2 = map_of []"

definition user_service_call2 ::
  "string \<Rightarrow> int \<Rightarrow> int \<Rightarrow> 'a db \<Rightarrow> (error + unit) \<times> 'a db" where
  "user_service_call2 name a b d =
     (case user_service_attr2 name of
        None \<Rightarrow> (Inl (AttributeError name), d)
      | Some f \<Rightarrow> f a b d)"

section \<open>The request handlers\<close>

text \<open>
  A request carries the identity that the token library verified (None when the request
  has no valid token), the path parameters and the payload. A handler returns what it
  returns or raises, together with the database it leaves behind.
\<close>

definition jwt_required ::
  "int option \<Rightarrow> (int \<Rightarrow> 'a db \<Rightarrow> (error + 'r) \<times> 'a db) \<Rightarrow> 'a db \<Rightarrow> (error + 'r) \<times> 'a db" where
  "jwt_required ident handler d =
     (case ident of
        None \<Rightarrow> (Inl NoAuthorizationError, d)
      | Some caller \<Rightarrow> handler caller d)"

text \<open>
  What \<^verbatim>\<open>marshal_with(USER_MODEL)\<close> makes of the value a handler returns: the three
  fields of the model, each read from the attribute of that name, and null when the
  object has no such attribute, as None has none.
\<close>

record user_model =
  m_id :: "int option"
  m_username :: "string option"
  m_created_on :: "timestamp option"

definition USER_MODEL :: "'a user option \<Rightarrow> user_model" where
  "USER_MODEL obj =
     (case obj of
        None \<Rightarrow> \<lparr>m_id = None, m_username = None, m_created_on = None\<rparr>
      | Some u \<Rightarrow> \<lparr>m_id = uid u, m_username = Some (username u), m_created_on = created_on u\<rparr>)"

text \<open>\<^verbatim>\<open>UserListController.get\<close>.\<close>

definition UserListController_get :: "'a db \<Rightarrow> user_model list \<times> nat" where
  "UserListController_get d = (map (\<lambda>u. USER_MODEL (Some u)) (get_all_user d), 200)"

text \<open>\<^verbatim>\<open>UserListController.post\<close>; the payload is the dictionary of the request body.\<close>

definition UserListController_post ::
  "(string \<Rightarrow> string) \<Rightarrow> (string \<rightharpoonup> string) \<Rightarrow> 'a db \<Rightarrow> (error + user_model \<times> nat) \<times> 'a db" where
  "UserListController_post generate_password_hash payload d =
     (case payload ''username'' of
        None \<Rightarrow> (Inl (KeyError ''username''), d)
      | Some n \<Rightarrow>
          (case payload ''password'' of
             None \<Rightarrow> (Inl (KeyError ''password''), d)
           | Some p \<Rightarrow>
               (let user = set_password generate_password_hash p
                             \<lparr>uid = None, username = n, password_hash = [],
                              created_on = None, structures = []\<rparr>
                in case add_user user d of
                     Inl e \<Rightarrow> (Inl e, d)
                   | Inr (user', d') \<Rightarrow> (Inr (USER_MODEL (Some user'), 201), d'))))"

text \<open>\<^verbatim>\<open>UserController.get\<close>.\<close>

definition UserController_get :: "int \<Rightarrow> 'a db \<Rightarrow> user_model \<times> nat" where
  "UserController_get i d = (USER_MODEL (get_user i d), 200)"

text \<open>
  \<^verbatim>\<open>UserController.put\<close>. The arguments of the constructor are evaluated in order:
  the username of the payload, then the attributes of the user that was looked up.
\<close>

definition UserController_put ::
  "(string \<Rightarrow> string) \<Rightarrow> int option \<Rightarrow> int \<Rightarrow> (string \<rightharpoonup> string) \<Rightarrow> 'a db \<Rightarrow>
   (error + user_model \<times> nat) \<times> 'a db" where
  "UserController_put generate_password_hash ident i payload d =
     jwt_required ident
       (\<lambda>caller d.
          case payload ''username'' of
            None \<Rightarrow> (Inl (KeyError ''username''), d)
          | Some n \<Rightarrow>
              (case get_user i d of
                 None \<Rightarrow> (Inl (AttributeError ''password_hash''), d)
               | Some user \<Rightarrow>
                   (let updated_user =
                          \<lparr>uid = Some i, username = n, password_hash = password_hash user,
                           created_on = created_on user, structures = structures user\<rparr>;
                        updated_user =
                          (case payload ''password'' of
                             None \<Rightarrow> updated_user
                           | Some p \<Rightarrow> set_password generate_password_hash p updated_user)
                    in case update_user updated_user d of
                         Inl e \<Rightarrow> (Inl e, d)
                       | Inr d' \<Rightarrow> (Inr (USER_MODEL (Some updated_user), 200), d')))) d"

text \<open>\<^verbatim>\<open>UserController.delete\<close>; the handler argument is \<^verbatim>\<open>get_jwt_identity()\<close>.\<close>

definition UserController_delete ::
  "int option \<Rightarrow> int \<Rightarrow> 'a db \<Rightarrow> (error + string \<times> nat) \<times> 'a db" where
  "UserController_delete ident i d =
     jwt_required ident
       (\<lambda>caller d.
          if i \<noteq> caller then (Inl (HTTPException 401), d)
          else (Inr ('''', 204), delete_user i d)) d"

text \<open>
  \<^verbatim>\<open>StructureUserController.get\<close> and \<^verbatim>\<open>FavoritesUserController.get\<close>. The
  serializer \<^verbatim>\<open>structures_to_geojson\<close> and the response model come from modules that
  are outside the controller and the service; they are parameters.
\<close>

definition StructureUserController_get ::
  "('g \<Rightarrow> 'j) \<Rightarrow> ('a Structure list \<Rightarrow> 'g) \<Rightarrow> int \<Rightarrow> 'a db \<Rightarrow> error + 'j \<times> nat" where
  "StructureUserController_get FEATURE_COLLECTION_MODEL structures_to_geojson i d =
     (case user_service_attr ''get_all_structure_by_user'' of
        None \<Rightarrow> Inl (AttributeError ''get_all_structure_by_user'')
      | Some query \<Rightarrow> Inr (FEATURE_COLLECTION_MODEL (structures_to_geojson (query i d)), 200))"

definition FavoritesUserController_get ::
  "('g \<Rightarrow> 'j) \<Rightarrow> ('a Structure list \<Rightarrow> 'g) \<Rightarrow> int \<Rightarrow> 'a db \<Rightarrow> error + 'j \<times> nat" where
  "FavoritesUserController_get FEATURE_COLLECTION_MODEL structures_to_geojson i d =
     (case user_service_attr ''get_favorites_by_user'' of
        None \<Rightarrow> Inl (AttributeError ''get_favorites_by_user'')
      | Some query \<Rightarrow> Inr (FEATURE_COLLECTION_MODEL (structures_to_geojson (query i d)), 200))"

text \<open>
  \<^verbatim>\<open>FavoritesUserController.post\<close>. The service function
  \<^verbatim>\<open>user_service.add_favorite_to_user\<close> is not defined in the service module and
  \<^verbatim>\<open>get_structure\<close> belongs to another module; the handler takes both as parameters.
\<close>

definition FavoritesUserController_post ::
  "(int \<Rightarrow> int \<Rightarrow> 'a db \<Rightarrow> (error + unit) \<times> 'a db) \<Rightarrow> (int \<Rightarrow> 'a db \<Rightarrow> 's) \<Rightarrow>
   ('g \<Rightarrow> 'j) \<Rightarrow> ('s \<Rightarrow> 'g) \<Rightarrow>
   int option \<Rightarrow> int \<Rightarrow> (string \<rightharpoonup> int) \<Rightarrow> 'a db \<Rightarrow> (error + 'j \<times> nat) \<times> 'a db" where
  "FavoritesUserController_post add_favorite_to_user get_structure FEATURE_MODEL
       structures_to_geojson ident i payload d =
     jwt_required ident
       (\<lambda>caller d.
          case payload ''structure_id'' of
            None \<Rightarrow> (Inl (KeyError ''structure_id''), d)
          | Some structure_id \<Rightarrow>
              (case add_favorite_to_user i structure_id d of
                 (Inl e, d') \<Rightarrow> (Inl e, d')
               | (Inr _, d') \<Rightarrow>
                   (Inr (FEATURE_MODEL (structures_to_geojson (get_structure structure_id d')), 200),
                    d'))) d"

text \<open>
  \<^verbatim>\<open>FavoriteUserDeleteController.delete\<close>. The service function
  \<^verbatim>\<open>user_service.delete_favorite\<close> that it calls is not defined in the service module;
  the handler takes it as a parameter, which may raise and may change the database.
\<close>

definition FavoriteUserDeleteController_delete ::
  "(int \<Rightarrow> int \<Rightarrow> 'a db \<Rightarrow> (error + unit) \<times> 'a db) \<Rightarrow>
   int option \<Rightarrow> int \<Rightarrow> int \<Rightarrow> 'a db \<Rightarrow> (error + string \<times> nat) \<times> 'a db" where
  "FavoriteUserDeleteController_delete delete_favorite ident i favorite_id d =
     jwt_required ident
       (\<lambda>caller d.
          if i = caller then
            (case delete_favorite i favorite_id d of
               (Inl e, d') \<Rightarrow> (Inl e, d')
             | (Inr _, d') \<Rightarrow> (Inr ('''', 204), d'))
          else (Inl (HTTPException 401), d)) d"

section \<open>Sample data\<close>

definition alice :: user_row where
  "alice = \<lparr>row_id = 1, row_username = ''alice'', row_password_hash = ''h:p'', row_created_on = 10\<rparr>"

definition bob :: user_row where
  "bob = \<lparr>row_id = 2, row_username = ''bob'', row_password_hash = ''h:q'', row_created_on = 20\<rparr>"

definition clinic :: "string Structure" where
  "clinic = \<lparr>sid = 42, user_id = Some 1, favourites_of = [1, 2], concrete = ''clinic''\<rparr>"

definition gym :: "string Structure" where
  "gym = \<lparr>sid = 7, user_id = Some 2, favourites_of = [], concrete = ''gym''\<rparr>"

definition db0 :: "string db" where
  "db0 = \<lparr>user_table = [alice, bob], structure_table = [clinic, gym], clock = 30\<rparr>"

text \<open>A password hash for the examples.\<close>

definition h0 :: "string \<Rightarrow> string" where
  "h0 p = ''h:'' @ p"

text \<open>A favourite service and a structure lookup for the examples.\<close>

definition mark_favorite :: "int \<Rightarrow> int \<Rightarrow> 'a db \<Rightarrow> (error + unit) \<times> 'a db" where
  "mark_favorite u x d =
     (Inr (),
      d\<lparr>structure_table :=
          map (\<lambda>s. if sid s = x then s\<lparr>favourites_of := u # favourites_of s\<rparr> else s)
            (structure_table d)\<rparr>)"

definition lookup_structure :: "int \<Rightarrow> 'a db \<Rightarrow> 'a Structure option" where
  "lookup_structure x d = find (\<lambda>s. sid s = x) (structure_table d)"

text \<open>The columns of a user row that a response can show.\<close>

definition public_columns :: "user_row \<Rightarrow> int \<times> string \<times> timestamp" where
  "public_columns r = (row_id r, row_username r, row_created_on r)"

section \<open>Properties\<close>

subsection \<open>Lookup after deletion\<close>

lemma find_filter_none: "find (\<lambda>r. row_id r = i) (filter (\<lambda>r. row_id r \<noteq> i) rs) = None"
  by (induction rs) auto

lemma get_user_session_delete:
  "uid u = Some i \<Longrightarrow> get_user i (session_delete u d) = None"
  by (simp add: get_user_def query_get_def session_delete_def find_filter_none)

lemma uid_get_user: "get_user i d = Some u \<Longrightarrow> uid u = Some i"
  by (auto simp: get_user_def query_get_def load_user_def find_Some_iff)

lemma get_user_delete_user: "get_user i (delete_user i d) = None"
proof (cases "get_user i d")
  case None
  then show ?thesis by (simp add: delete_user_def)
next
  case (Some u)
  then show ?thesis
    by (simp add: delete_user_def get_user_session_delete uid_get_user)
qed

text \<open>
  C1. Self-only deletion: when the verified caller is not the target user, the handler
  that deletes a user and the handler that deletes a favourite both raise the HTTP
  exception 401 and leave the database as it was, whatever the favourite service
  would have done.
\<close>

theorem delete_handlers_self_only:
  "caller \<noteq> target \<Longrightarrow>
     UserController_delete (Some caller) target d = (Inl (HTTPException 401), d) \<and>
     FavoriteUserDeleteController_delete delete_favorite (Some caller) target favorite_id d
       = (Inl (HTTPException 401), d)"
  by (simp add: UserController_delete_def FavoriteUserDeleteController_delete_def
      jwt_required_def)

theorem delete_handlers_self_only_witness:
  "(2::int) \<noteq> 1 \<and>
   UserController_delete (Some 2) 1 db0 = (Inl (HTTPException 401), db0) \<and>
   FavoriteUserDeleteController_delete (\<lambda>i f d. (Inr (), d\<lparr>structure_table := []\<rparr>))
     (Some 2) 1 42 db0 = (Inl (HTTPException 401), db0)"
  using delete_handlers_self_only [of 2 1 db0 "\<lambda>i f d. (Inr (), d\<lparr>structure_table := []\<rparr>)" 42]
  by simp

text \<open>
  C7. Deleting a user is idempotent: on an identifier without a user the database is
  returned as it is, a second deletion changes nothing after the first, and after a
  deletion the lookup of the identifier finds nothing. The function has no failing
  branch.
\<close>

theorem delete_user_idempotent:
  "(get_user i d = None \<longrightarrow> delete_user i d = d) \<and>
   delete_user i (delete_user i d) = delete_user i d \<and>
   get_user i (delete_user i d) = None"
proof -
  have a: "get_user i d = None \<longrightarrow> delete_user i d = d"
    by (simp add: delete_user_def)
  have c: "get_user i (delete_user i d) = None"
    by (rule get_user_delete_user)
  have b: "delete_user i (delete_user i d) = delete_user i d"
    using c by (simp add: delete_user_def [of i "delete_user i d"])
  from a b c show ?thesis by blast
qed

theorem delete_user_idempotent_witness:
  "get_user 9 db0 = None \<and> delete_user 9 db0 = db0 \<and>
   get_user 1 db0 \<noteq> None \<and> delete_user 1 db0 \<noteq> db0 \<and>
   delete_user 1 (delete_user 1 db0) = delete_user 1 db0 \<and>
   get_user 1 (delete_user 1 db0) = None"
proof -
  have n: "get_user 9 db0 = None"
    by (simp add: get_user_def query_get_def db0_def alice_def bob_def)
  have s: "get_user 1 db0 \<noteq> None"
    by (simp add: get_user_def query_get_def db0_def alice_def bob_def)
  have m: "delete_user 1 db0 \<noteq> db0"
    using s delete_user_idempotent [of 1 db0] by auto
  show ?thesis
    using n s m delete_user_idempotent [of 9 db0] delete_user_idempotent [of 1 db0] by simp
qed



subsection \<open>Updating a user\<close>

lemma assign_structures_loaded:
  "map (assign_structures i (filter (\<lambda>s. user_id s = Some i) tbl)) tbl = tbl"
proof -
  have "assign_structures i (filter (\<lambda>s. user_id s = Some i) tbl) s = s" if "s \<in> set tbl" for s
    using that by (cases "user_id s = Some i") (simp_all add: assign_structures_def)
  then show ?thesis by (simp add: map_idI)
qed

lemma find_map_replace:
  "find (\<lambda>r. row_id r = i) rs = Some old \<Longrightarrow> row_id new = i \<Longrightarrow>
   find (\<lambda>r. row_id r = i) (map (\<lambda>r. if row_id r = i then new else r) rs) = Some new"
  by (induction rs) (auto split: if_splits)

lemma get_user_Some_row:
  "get_user i d = Some u \<Longrightarrow>
     \<exists>r. find (\<lambda>r. row_id r = i) (user_table d) = Some r \<and> u = load_user d r \<and> row_id r = i"
  by (auto simp: get_user_def query_get_def find_Some_iff)

lemma session_merge_loaded:
  assumes "find (\<lambda>r. row_id r = i) (user_table d) = Some r"
    and "row_id r = i"
    and "\<not> username_taken n (Some i) d"
  shows "session_merge \<lparr>uid = Some i, username = n, password_hash = ph,
            created_on = Some (row_created_on r),
            structures = filter (\<lambda>s. user_id s = Some i) (structure_table d)\<rparr> d
         = Inr (d\<lparr>user_table := map (\<lambda>x. if row_id x = i then
                     \<lparr>row_id = i, row_username = n, row_password_hash = ph,
                      row_created_on = row_created_on r\<rparr> else x) (user_table d)\<rparr>)"
  using assms by (simp add: session_merge_def row_of_def assign_structures_loaded)

lemma put_existing:
  assumes "find (\<lambda>r. row_id r = i) (user_table d) = Some r"
    and "row_id r = i" and "payload ''username'' = Some n"
  shows "UserController_put h (Some caller) i payload d =
     (let ph = (case payload ''password'' of None \<Rightarrow> row_password_hash r | Some p \<Rightarrow> h p) in
      if username_taken n (Some i) d then (Inl IntegrityError, d)
      else (Inr (\<lparr>m_id = Some i, m_username = Some n, m_created_on = Some (row_created_on r)\<rparr>, 200),
            d\<lparr>user_table := map (\<lambda>x. if row_id x = i then
                     \<lparr>row_id = i, row_username = n, row_password_hash = ph,
                      row_created_on = row_created_on r\<rparr> else x) (user_table d)\<rparr>))"
proof -
  have g: "get_user i d = Some (load_user d r)"
    using assms(1) by (simp add: get_user_def query_get_def)
  show ?thesis
  proof (cases "username_taken n (Some i) d")
    case True
    then show ?thesis using g assms
      by (simp add: UserController_put_def jwt_required_def update_user_def session_merge_def
          load_user_def set_password_def Let_def split: option.splits)
  next
    case False
    then show ?thesis using g assms session_merge_loaded [OF assms(1,2) False]
      by (simp add: UserController_put_def jwt_required_def update_user_def
          load_user_def set_password_def USER_MODEL_def Let_def split: option.splits)
  qed
qed


lemma get_user_updated:
  assumes "find (\<lambda>r. row_id r = i) (user_table d) = Some r"
  shows "get_user i (d\<lparr>user_table := map (\<lambda>x. if row_id x = i then
                     \<lparr>row_id = i, row_username = n, row_password_hash = ph,
                      row_created_on = row_created_on r\<rparr> else x) (user_table d)\<rparr>)
         = Some ((load_user d r)\<lparr>username := n, password_hash := ph\<rparr>)"
  using find_map_replace [OF assms, of "\<lparr>row_id = i, row_username = n, row_password_hash = ph,
                      row_created_on = row_created_on r\<rparr>"] assms
  by (auto simp: get_user_def query_get_def load_user_def find_Some_iff)

text \<open>
  C5. For an existing user, whatever the update handler does (it may refuse the request,
  raise, or merge the new record), the database it leaves behind still has the user under
  the same identifier with the same creation time and the same owned structures; when the
  payload has no password the stored hash is the old one; and the owned and favourite
  structures of the user are the same as before.
\<close>

theorem put_preserves:
  assumes "get_user i d = Some old"
  shows "\<exists>new. get_user i (snd (UserController_put h ident i payload d)) = Some new \<and>
           uid new = uid old \<and> created_on new = created_on old \<and>
           structures new = structures old \<and>
           (payload ''password'' = None \<longrightarrow> password_hash new = password_hash old) \<and>
           get_all_structure_by_user i (snd (UserController_put h ident i payload d))
             = get_all_structure_by_user i d \<and>
           get_favourites_by_user i (snd (UserController_put h ident i payload d))
             = get_favourites_by_user i d"
proof -
  from assms obtain r where r: "find (\<lambda>r. row_id r = i) (user_table d) = Some r"
    "old = load_user d r" "row_id r = i"
    using get_user_Some_row by blast
  show ?thesis
  proof (cases ident)
    case None
    then show ?thesis using assms
      by (simp add: UserController_put_def jwt_required_def)
  next
    case (Some caller)
    show ?thesis
    proof (cases "payload ''username''")
      case None
      then show ?thesis using assms Some
        by (simp add: UserController_put_def jwt_required_def)
    next
      case (Some n)
      note n = this
      show ?thesis
      proof (cases "username_taken n (Some i) d")
        case True
        then show ?thesis using assms \<open>ident = Some caller\<close> put_existing [of i d r payload n h caller] r n
          by (simp add: Let_def)
      next
        case False
        then show ?thesis
          using \<open>ident = Some caller\<close> put_existing [of i d r payload n h caller] r n
            get_user_updated [OF r(1)]
          by (simp add: Let_def load_user_def get_all_structure_by_user_def
              get_favourites_by_user_def split: option.splits)
      qed
    qed
  qed
qed


lemma db0_alice: "get_user 1 db0 = Some \<lparr>uid = Some 1, username = ''alice'', password_hash = ''h:p'',
     created_on = Some 10, structures = [clinic]\<rparr>"
  by (simp add: get_user_def query_get_def load_user_def db0_def alice_def bob_def clinic_def gym_def)

lemma put_db0:
  "UserController_put h0 (Some 2) 1 [''username'' \<mapsto> ''al''] db0 =
     (Inr (\<lparr>m_id = Some 1, m_username = Some ''al'', m_created_on = Some 10\<rparr>, 200),
      db0\<lparr>user_table := [alice\<lparr>row_username := ''al''\<rparr>, bob]\<rparr>)"
  by (simp add: UserController_put_def jwt_required_def db0_alice update_user_def
    session_merge_def username_taken_def)
   (simp add: db0_def alice_def bob_def clinic_def gym_def Let_def row_of_def
      assign_structures_def USER_MODEL_def)

theorem put_preserves_witness:
  "get_user 1 db0 = Some \<lparr>uid = Some 1, username = ''alice'', password_hash = ''h:p'',
     created_on = Some 10, structures = [clinic]\<rparr> \<and>
   snd (UserController_put h0 (Some 2) 1 [''username'' \<mapsto> ''al''] db0) \<noteq> db0 \<and>
   get_user 1 (snd (UserController_put h0 (Some 2) 1 [''username'' \<mapsto> ''al''] db0))
     = Some \<lparr>uid = Some 1, username = ''al'', password_hash = ''h:p'',
     created_on = Some 10, structures = [clinic]\<rparr>"
proof -
  have neq: "snd (UserController_put h0 (Some 2) 1 [''username'' \<mapsto> ''al''] db0) \<noteq> db0"
    by (simp add: put_db0) (simp add: db0_def alice_def)
  have g: "get_user 1 (snd (UserController_put h0 (Some 2) 1 [''username'' \<mapsto> ''al''] db0))
     = Some \<lparr>uid = Some 1, username = ''al'', password_hash = ''h:p'',
     created_on = Some 10, structures = [clinic]\<rparr>"
    by (simp add: put_db0 get_user_def query_get_def load_user_def)
       (simp add: db0_def alice_def bob_def clinic_def gym_def)
  from put_preserves [OF db0_alice, of h0 "Some 2" "[''username'' \<mapsto> ''al'']"] neq g db0_alice
  show ?thesis by simp
qed

subsection \<open>Signing up\<close>

lemma fold_max_ge: "(a::int) \<le> fold max xs a"
proof (induction xs arbitrary: a)
  case Nil
  show ?case by simp
next
  case (Cons x xs)
  have "a \<le> max x a" by simp
  also have "\<dots> \<le> fold max xs (max x a)" by (rule Cons.IH)
  finally show ?case by simp
qed

lemma fold_max_upper: "(x::int) \<in> set xs \<Longrightarrow> x \<le> fold max xs a"
proof (induction xs arbitrary: a)
  case Nil
  then show ?case by simp
next
  case (Cons y ys)
  show ?case
  proof (cases "x = y")
    case True
    have "x \<le> max y a" using True by simp
    also have "\<dots> \<le> fold max ys (max y a)" by (rule fold_max_ge)
    finally show ?thesis by simp
  next
    case False
    with Cons.prems have "x \<in> set ys" by simp
    then show ?thesis using Cons.IH by simp
  qed
qed

lemma fresh_id_unused: "find (\<lambda>r. row_id r = fresh_id d) (user_table d) = None"
proof -
  have "row_id r < fresh_id d" if "r \<in> set (user_table d)" for r
    using fold_max_upper [of "row_id r" "map row_id (user_table d)" 0] that
    by (simp add: fresh_id_def)
  then show ?thesis by (fastforce simp: find_None_iff)
qed

lemma USER_MODEL_load:
  "USER_MODEL (Some (load_user d r)) =
     \<lparr>m_id = Some (row_id r), m_username = Some (row_username r),
      m_created_on = Some (row_created_on r)\<rparr>"
  by (simp add: USER_MODEL_def load_user_def)

lemma post_result:
  "UserListController_post h [''username'' \<mapsto> n, ''password'' \<mapsto> p] d =
     (if username_taken n None d then (Inl IntegrityError, d)
      else (Inr (\<lparr>m_id = Some (fresh_id d), m_username = Some n, m_created_on = Some (clock d)\<rparr>,
                 201),
            d\<lparr>user_table := user_table d @
                  [\<lparr>row_id = fresh_id d, row_username = n, row_password_hash = h p,
                    row_created_on = clock d\<rparr>],
              structure_table := map (assign_structures (fresh_id d) []) (structure_table d)\<rparr>))"
  by (simp add: UserListController_post_def add_user_def session_add_def set_password_def
      query_get_def fresh_id_unused insert_user_def row_of_def USER_MODEL_load Let_def)

lemma find_public:
  "map public_columns rs = map public_columns rs' \<Longrightarrow>
   map_option public_columns (find (\<lambda>r. row_id r = j) rs)
     = map_option public_columns (find (\<lambda>r. row_id r = j) rs')"
proof (induction rs arbitrary: rs')
  case Nil
  then show ?case by simp
next
  case (Cons r rs)
  then obtain r' rs2 where rs': "rs' = r' # rs2" and hd: "public_columns r = public_columns r'"
    and tl: "map public_columns rs = map public_columns rs2"
    by (cases rs') auto
  from hd have same: "row_id r = row_id r'" by (simp add: public_columns_def)
  show ?case
  proof (cases "row_id r = j")
    case True
    then show ?thesis using same hd rs' by simp
  next
    case False
    then show ?thesis using same rs' Cons.IH [OF tl] by simp
  qed
qed

lemma find_snoc:
  "find P (xs @ [y]) = (case find P xs of Some x \<Rightarrow> Some x | None \<Rightarrow> if P y then Some y else None)"
  by (induction xs) auto

lemma USER_MODEL_public:
  "USER_MODEL (map_option (load_user d) x) =
     (case map_option public_columns x of
        None \<Rightarrow> \<lparr>m_id = None, m_username = None, m_created_on = None\<rparr>
      | Some (i, n, c) \<Rightarrow> \<lparr>m_id = Some i, m_username = Some n, m_created_on = Some c\<rparr>)"
  by (cases x) (simp_all add: USER_MODEL_load public_columns_def, simp add: USER_MODEL_def)

lemma get_public:
  assumes "map public_columns (user_table e) = map public_columns (user_table d)"
  shows "UserController_get j e = UserController_get j d"
  using find_public [OF assms, of j]
  by (simp add: UserController_get_def get_user_def query_get_def USER_MODEL_public)

lemma list_columns:
  "map (\<lambda>u. USER_MODEL (Some u)) (get_all_user x)
     = map (\<lambda>(i, n, c). \<lparr>m_id = Some i, m_username = Some n, m_created_on = Some c\<rparr>)
         (map public_columns (user_table x))"
  by (simp add: get_all_user_def USER_MODEL_load public_columns_def comp_def)

lemma list_public:
  assumes "map public_columns (user_table e) = map public_columns (user_table d)"
  shows "UserListController_get e = UserListController_get d"
  by (simp only: UserListController_get_def list_columns assms)

text \<open>
  C2. A signup with password \<open>p\<close> stores the hash of \<open>p\<close> in the row of the new
  user. The response of the signup is the same for any other password, and the databases
  the two signups leave behind agree on the public columns. The listing and the lookup of a
  user show the identifier, the username and the creation time, and they answer the same on
  any two databases that agree on the public columns: no response depends on the password
  or on its hash. (The setter that hashes the password is modelled from the specification.)
\<close>

theorem signup_password_not_exposed:
  assumes "UserListController_post h [''username'' \<mapsto> n, ''password'' \<mapsto> p] d = (Inr r, d')"
  shows "(\<exists>i. m_id (fst r) = Some i \<and> map_option password_hash (get_user i d') = Some (h p)) \<and>
         (\<forall>p2. \<exists>d2. UserListController_post h [''username'' \<mapsto> n, ''password'' \<mapsto> p2] d
                        = (Inr r, d2) \<and>
                     map public_columns (user_table d2) = map public_columns (user_table d')) \<and>
         (\<forall>e j. map public_columns (user_table e) = map public_columns (user_table d') \<longrightarrow>
                 UserListController_get e = UserListController_get d' \<and>
                 UserController_get j e = UserController_get j d')"
proof -
  from assms have ok: "\<not> username_taken n None d"
    by (auto simp: post_result split: if_splits)
  from assms ok have r: "r = (\<lparr>m_id = Some (fresh_id d), m_username = Some n,
                               m_created_on = Some (clock d)\<rparr>, 201)"
    and d': "d' = d\<lparr>user_table := user_table d @
                  [\<lparr>row_id = fresh_id d, row_username = n, row_password_hash = h p,
                    row_created_on = clock d\<rparr>],
              structure_table := map (assign_structures (fresh_id d) []) (structure_table d)\<rparr>"
    by (simp_all add: post_result)
  have a: "\<exists>i. m_id (fst r) = Some i \<and> map_option password_hash (get_user i d') = Some (h p)"
    by (simp add: r d' get_user_def query_get_def find_snoc fresh_id_unused load_user_def)
  have b: "\<exists>d2. UserListController_post h [''username'' \<mapsto> n, ''password'' \<mapsto> p2] d
                        = (Inr r, d2) \<and>
                     map public_columns (user_table d2) = map public_columns (user_table d')" for p2
    using ok by (simp add: post_result r d' public_columns_def)
  show ?thesis
  proof (intro conjI allI impI)
    show "\<exists>i. m_id (fst r) = Some i \<and> map_option password_hash (get_user i d') = Some (h p)"
      by (rule a)
  next
    fix p2
    show "\<exists>d2. UserListController_post h [''username'' \<mapsto> n, ''password'' \<mapsto> p2] d
                        = (Inr r, d2) \<and>
                     map public_columns (user_table d2) = map public_columns (user_table d')"
      by (rule b)
  next
    fix e :: "'b db" and j :: int
    assume "map public_columns (user_table e) = map public_columns (user_table d')"
    then show "UserListController_get e = UserListController_get d'"
      by (rule list_public)
  next
    fix e :: "'b db" and j :: int
    assume "map public_columns (user_table e) = map public_columns (user_table d')"
    then show "UserController_get j e = UserController_get j d'"
      by (rule get_public)
  qed
qed

lemma post_db0:
  "UserListController_post h0 [''username'' \<mapsto> ''carol'', ''password'' \<mapsto> ''pw''] db0 =
     (Inr (\<lparr>m_id = Some 3, m_username = Some ''carol'', m_created_on = Some 30\<rparr>, 201),
      db0\<lparr>user_table := [alice, bob,
             \<lparr>row_id = 3, row_username = ''carol'', row_password_hash = ''h:pw'',
              row_created_on = 30\<rparr>]\<rparr>)"
  by (simp add: post_result username_taken_def fresh_id_def h0_def)
     (simp add: db0_def alice_def bob_def clinic_def gym_def assign_structures_def)

theorem signup_password_not_exposed_witness:
  "UserListController_post h0 [''username'' \<mapsto> ''carol'', ''password'' \<mapsto> ''pw''] db0 =
     (Inr (\<lparr>m_id = Some 3, m_username = Some ''carol'', m_created_on = Some 30\<rparr>, 201),
      db0\<lparr>user_table := [alice, bob,
             \<lparr>row_id = 3, row_username = ''carol'', row_password_hash = ''h:pw'',
              row_created_on = 30\<rparr>]\<rparr>) \<and>
   (\<exists>d2. UserListController_post h0 [''username'' \<mapsto> ''carol'', ''password'' \<mapsto> ''other''] db0 =
     (Inr (\<lparr>m_id = Some 3, m_username = Some ''carol'', m_created_on = Some 30\<rparr>, 201), d2))"
  using signup_password_not_exposed [OF post_db0] post_db0 by blast

subsection \<open>Looking up an absent user\<close>

lemma get_user_db0_absent: "get_user 9 db0 = None"
  by (simp add: get_user_def query_get_def db0_def alice_def bob_def)

lemma UserController_get_absent:
  "get_user i d = None \<Longrightarrow>
   UserController_get i d = (\<lparr>m_id = None, m_username = None, m_created_on = None\<rparr>, 200)"
  by (simp add: UserController_get_def USER_MODEL_def)

text \<open>
  C6. The lookup of an identifier without a user returns None, which is not an error. The
  handler of \<^verbatim>\<open>GET /users/{id}\<close> does not turn it into the status 404 that the
  controller class documents (\<^verbatim>\<open>@API.response(404, 'User not found')\<close>): it returns
  None, which the response model renders as a record of three nulls with the status 200.
  Here for the identifier 9 on a database with the users 1 and 2.
\<close>

theorem UserController_get_absent_is_200:
  "get_user 9 db0 = None \<and>
   UserController_get 9 db0 = (\<lparr>m_id = None, m_username = None, m_created_on = None\<rparr>, 200) \<and>
   snd (UserController_get 9 db0) \<noteq> 404"
  by (simp add: get_user_db0_absent UserController_get_def USER_MODEL_def)

text \<open>
  C9. When the target user does not exist, the update handler raises and leaves the database
  as it was: with a username in the payload the exception is the AttributeError of reading
  \<^verbatim>\<open>password_hash\<close> from None (without one, the KeyError of the payload comes first).
  It never answers with a not-found status, so a normal return needs an existing user.
\<close>

theorem put_absent_user_raises:
  "get_user i d = None \<Longrightarrow>
   UserController_put h (Some caller) i payload d =
     (Inl (case payload ''username'' of
             None \<Rightarrow> KeyError ''username''
           | Some n \<Rightarrow> AttributeError ''password_hash''), d)"
  by (simp add: UserController_put_def jwt_required_def split: option.splits)

theorem put_absent_user_raises_witness:
  "get_user 9 db0 = None \<and>
   UserController_put h0 (Some 9) 9 [''username'' \<mapsto> ''carol'', ''password'' \<mapsto> ''pw''] db0 =
     (Inl (AttributeError ''password_hash''), db0)"
  using put_absent_user_raises [of 9 db0 h0 9 "[''username'' \<mapsto> ''carol'', ''password'' \<mapsto> ''pw'']"]
    get_user_db0_absent
  by simp

text \<open>
  C10. The update handler never looks at the identity of the caller: any two verified
  callers get the same result and leave the same database, for every target and payload.
  In the example the user 2 renames the user 1.
\<close>

theorem put_not_self_scoped:
  "UserController_put h (Some a) i payload d = UserController_put h (Some b) i payload d"
  by (simp add: UserController_put_def jwt_required_def)

theorem put_not_self_scoped_witness:
  "UserController_put h0 (Some 2) 1 [''username'' \<mapsto> ''al''] db0 =
     (Inr (\<lparr>m_id = Some 1, m_username = Some ''al'', m_created_on = Some 10\<rparr>, 200),
      db0\<lparr>user_table := [alice\<lparr>row_username := ''al''\<rparr>, bob]\<rparr>) \<and>
   UserController_put h0 (Some 1) 1 [''username'' \<mapsto> ''al''] db0 =
     (Inr (\<lparr>m_id = Some 1, m_username = Some ''al'', m_created_on = Some 10\<rparr>, 200),
      db0\<lparr>user_table := [alice\<lparr>row_username := ''al''\<rparr>, bob]\<rparr>)"
  using put_not_self_scoped [of h0 1 1 "[''username'' \<mapsto> ''al'']" db0 2] put_db0
  by simp

subsection \<open>Favourites\<close>

lemma FavoritesUserController_get_always_raises:
  "FavoritesUserController_get m g i d = Inl (AttributeError ''get_favorites_by_user'')"
  by (simp add: FavoritesUserController_get_def user_service_attr_def)

text \<open>
  C4. The handler that lists the favourites of a user needs no identity, but it asks the
  service module for \<^verbatim>\<open>get_favorites_by_user\<close> while the module defines
  \<^verbatim>\<open>get_favourites_by_user\<close>: the attribute lookup raises AttributeError and no
  feature collection is returned. The sibling handler for the owned structures, written the
  same way, finds its function; and the function of the module, under its own name, does
  return the favourites of the user 1 (the structure 42).
\<close>

theorem FavoritesUserController_get_raises:
  "FavoritesUserController_get id (map sid) 1 db0 = Inl (AttributeError ''get_favorites_by_user'') \<and>
   StructureUserController_get id (map sid) 1 db0 = Inr ([42], 200) \<and>
   map_option (\<lambda>query. map sid (query 1 db0)) (user_service_attr ''get_favourites_by_user'')
     = Some [42]"
  by (simp add: FavoritesUserController_get_def StructureUserController_get_def
      user_service_attr_def get_all_structure_by_user_def get_favourites_by_user_def
      db0_def clinic_def gym_def)

text \<open>
  C8. The handler that adds a favourite needs a verified identity and then ignores it: any
  two verified callers get the same result and leave the same database, whatever the
  service function does. When the payload names a structure and the service succeeds, the
  handler returns that structure, looked up afterwards and serialized, with the database
  the service left. An exception of the handler is the missing key of the payload or the
  exception of the service, so none comes from comparing identities.
\<close>

theorem add_favorite_handler_ignores_caller:
  "FavoritesUserController_post add gs fm geo (Some a) i payload d
     = FavoritesUserController_post add gs fm geo (Some b) i payload d \<and>
   FavoritesUserController_post add gs fm geo None i payload d = (Inl NoAuthorizationError, d) \<and>
   (payload ''structure_id'' = Some s \<and> add i s d = (Inr (), d') \<longrightarrow>
      FavoritesUserController_post add gs fm geo (Some a) i payload d
        = (Inr (fm (geo (gs s d')), 200), d')) \<and>
   (fst (FavoritesUserController_post add gs fm geo (Some a) i payload d) = Inl e \<longrightarrow>
      (case payload ''structure_id'' of
         None \<Rightarrow> e = KeyError ''structure_id''
       | Some s \<Rightarrow> fst (add i s d) = Inl e))"
  by (auto simp: FavoritesUserController_post_def jwt_required_def
      split: option.splits sum.splits prod.splits)

theorem add_favorite_handler_ignores_caller_witness:
  "mark_favorite 1 7 db0 = (Inr (), db0\<lparr>structure_table := [clinic, gym\<lparr>favourites_of := [1]\<rparr>]\<rparr>) \<and>
   FavoritesUserController_post mark_favorite lookup_structure id (map_option concrete)
       (Some 2) 1 [''structure_id'' \<mapsto> 7] db0
     = (Inr (Some ''gym'', 200), db0\<lparr>structure_table := [clinic, gym\<lparr>favourites_of := [1]\<rparr>]\<rparr>) \<and>
   FavoritesUserController_post mark_favorite lookup_structure id (map_option concrete)
       (Some 1) 1 [''structure_id'' \<mapsto> 7] db0
     = (Inr (Some ''gym'', 200), db0\<lparr>structure_table := [clinic, gym\<lparr>favourites_of := [1]\<rparr>]\<rparr>)"
proof -
  have m: "mark_favorite 1 7 db0
             = (Inr (), db0\<lparr>structure_table := [clinic, gym\<lparr>favourites_of := [1]\<rparr>]\<rparr>)"
    by (simp add: mark_favorite_def db0_def clinic_def gym_def)
  have g: "lookup_structure 7 (db0\<lparr>structure_table := [clinic, gym\<lparr>favourites_of := [1]\<rparr>]\<rparr>)
             = Some (gym\<lparr>favourites_of := [1]\<rparr>)"
    by (simp add: lookup_structure_def clinic_def gym_def)
  have c: "concrete (gym\<lparr>favourites_of := [1]\<rparr>) = ''gym''"
    by (simp add: gym_def)
  show ?thesis
    using m g c
      add_favorite_handler_ignores_caller [of mark_favorite lookup_structure id
        "map_option concrete" 2 1 "[''structure_id'' \<mapsto> 7]" db0 1 7
        "db0\<lparr>structure_table := [clinic, gym\<lparr>favourites_of := [1]\<rparr>]\<rparr>" IntegrityError]
    by auto
qed

text \<open>
  C3. Favourites round trip. The two handlers that the claim cites call
  \<^verbatim>\<open>user_service.add_favorite_to_user\<close> and \<^verbatim>\<open>user_service.delete_favorite\<close>,
  which the service module does not define. With the module as it is, the user 1 adding the
  structure 7 gets AttributeError and the favourites of the user 1 afterwards do not include
  the structure 7; the user 1 removing the favourite 42 gets AttributeError and the
  favourites afterwards still include the structure 42.
\<close>

theorem favorites_handlers_raise:
  "FavoritesUserController_post (user_service_call2 ''add_favorite_to_user'') lookup_structure id
       (map_option concrete) (Some 1) 1 [''structure_id'' \<mapsto> 7] db0
     = (Inl (AttributeError ''add_favorite_to_user''), db0) \<and>
   7 \<in> sid ` set (structure_table db0) \<and>
   7 \<notin> sid ` set (get_favourites_by_user 1
         (snd (FavoritesUserController_post (user_service_call2 ''add_favorite_to_user'')
                 lookup_structure id (map_option concrete) (Some 1) 1
                 [''structure_id'' \<mapsto> 7] db0))) \<and>
   FavoriteUserDeleteController_delete (user_service_call2 ''delete_favorite'') (Some 1) 1 42 db0
     = (Inl (AttributeError ''delete_favorite''), db0) \<and>
   42 \<in> sid ` set (get_favourites_by_user 1
         (snd (FavoriteUserDeleteController_delete (user_service_call2 ''delete_favorite'')
                 (Some 1) 1 42 db0)))"
proof -
  have p: "FavoritesUserController_post (user_service_call2 ''add_favorite_to_user'')
             lookup_structure id (map_option concrete) (Some 1) 1 [''structure_id'' \<mapsto> 7] db0
           = (Inl (AttributeError ''add_favorite_to_user''), db0)"
    by (simp add: FavoritesUserController_post_def jwt_required_def user_service_call2_def
        user_service_attr2_def)
  have q: "FavoriteUserDeleteController_delete (user_service_call2 ''delete_favorite'')
             (Some 1) 1 42 db0
           = (Inl (AttributeError ''delete_favorite''), db0)"
    by (simp add: FavoriteUserDeleteController_delete_def jwt_required_def
        user_service_call2_def user_service_attr2_def)
  have f: "map sid (get_favourites_by_user 1 db0) = [42]"
    by (simp add: get_favourites_by_user_def db0_def clinic_def gym_def)
  have t: "7 \<in> sid ` set (structure_table db0)"
    by (simp add: db0_def clinic_def gym_def)
  have g: "sid ` set (get_favourites_by_user 1 db0) = {42}"
    using f by (metis list.set_map list.simps(15) empty_set)
  show ?thesis
    by (simp add: p q t g)
qed

lemma user_service_call2_raises:
  "user_service_call2 name a b d = (Inl (AttributeError name), d)"
  by (simp add: user_service_call2_def user_service_attr2_def)

end
